theory Spec2Isabelle
  imports Complex_Main "HOL-Library.Sublist" "HOL-Library.Multiset"
begin

section \<open>Python values and pandas tables\<close>

text \<open>
  The feature calculators work on pandas data frames and on floats. A data frame is
  modelled as the list of its rows in index order, a row as a record of the columns the
  code reads. A Python float is either the special value \<open>NaN\<close> or a number; numbers are
  the reals, so the rounding of IEEE doubles is outside the model. A value that may be
  Python's \<open>None\<close> is an \<open>option\<close>.
\<close>

datatype pyfloat = NaN | Fl real

text \<open>The exceptions that the modelled code can meet; all are subclasses of \<open>Exception\<close>.\<close>

datatype py_error =
    NameError string
  | AttributeError string
  | KeyError string
  | IndexError
  | ValueError
  | DataNotLoadedError
  | LinAlgError
  | NotFittedError
  | EstimatorError string

text \<open>
  A row of the standings table has the columns \<open>RoundNumber\<close>, \<open>TeamName\<close> and
  \<open>Position\<close>; a row of the driver and constructor history has \<open>Driver\<close> and
  \<open>Status\<close> as well (train.py, lines 152 to 170).
\<close>

record standing_row =
  RoundNumber :: int
  TeamName :: string
  Position :: pyfloat

record result_row = standing_row +
  Driver :: string
  Status :: string



text \<open>\<open>Series.mean()\<close> skips NaN entries; the mean of no entries is NaN.\<close>

fun present :: "pyfloat list \<Rightarrow> real list" where
  "present [] = []"
| "present (NaN # vs) = present vs"
| "present (Fl v # vs) = v # present vs"


section \<open>Driver features (src/features/driver.py)\<close>


text \<open>The loop of \<open>calculate_driver_dnf_rate\<close> over the rows, with its counter.\<close>

fun count_dnfs :: "nat \<Rightarrow> result_row list \<Rightarrow> nat" where
  "count_dnfs dnfs [] = dnfs"
| "count_dnfs dnfs (row # rows) =
     (let status = Status row
      in if status \<notin> set [''Finished''] \<and> CHR ''+'' \<notin> set status
         then count_dnfs (dnfs + 1) rows
         else count_dnfs dnfs rows)"

definition calculate_driver_dnf_rate :: "result_row list \<Rightarrow> int \<Rightarrow> real" where
  "calculate_driver_dnf_rate driver_results current_round =
     (let past_results = filter (\<lambda>r. RoundNumber r < current_round) driver_results
      in if past_results = [] then 0
         else let total_races = length past_results;
                  dnfs = count_dnfs 0 past_results
              in real dnfs / real total_races)"

section \<open>Constructor features (src/features/constructor.py)\<close>

text \<open>
  The module imports pandas as \<open>pd\<close> and nothing else, and defines two functions: these
  are its global names. Python looks a free name up in the module's globals (the
  builtins have no \<open>np\<close>) and raises NameError when it is not bound, so the expression
  \<open>np.nan\<close> of this module is evaluated by \<open>np_nan\<close>.
\<close>

definition constructor_globals :: "string list" where
  "constructor_globals =
     [''pd'', ''calculate_constructor_standing'', ''calculate_reliability_score'']"

definition np_nan :: "py_error + pyfloat" where
  "np_nan = (if ''np'' \<in> set constructor_globals then Inr NaN else Inl (NameError ''np''))"

text \<open>
  The standings table is \<open>None\<close> or a data frame. The integer 0 returned at the start of
  the season is the number 0.
\<close>

definition calculate_constructor_standing ::
  "standing_row list option \<Rightarrow> string \<Rightarrow> int \<Rightarrow> py_error + pyfloat" where
  "calculate_constructor_standing standings_data team_name current_round =
     (case standings_data of
        None \<Rightarrow> np_nan
      | Some df \<Rightarrow>
          if df = [] then np_nan
          else let prev_round = current_round - 1
               in if prev_round < 1 then Inr (Fl 0)
                  else let team_standing =
                             filter (\<lambda>r. RoundNumber r = prev_round \<and> TeamName r = team_name) df
                       in if team_standing = [] then np_nan
                          else Inr (Position (hd team_standing)))"






section \<open>The properties in the words of the specification\<close>






section \<open>Sessions of the data provider\<close>

text \<open>
  A FastF1 session as far as the code reads it. A lap has the columns \<open>Driver\<close>,
  \<open>DriverNumber\<close>, \<open>LapTime\<close> (in seconds here; \<open>None\<close> is pandas' NaT), \<open>Stint\<close>,
  \<open>TrackStatus\<close> and the speed trap \<open>ST\<close>, when the table has that column. An attribute of
  the session is absent, or a property that raises (FastF1 raises DataNotLoadedError for
  data that was not loaded), or present with a value.
\<close>

record lap =
  LapDriver :: string
  DriverNumber :: string
  LapTime :: "real option"
  Stint :: int
  TrackStatus :: string
  ST :: pyfloat

record weather_sample =
  TrackTemp :: pyfloat
  Rainfall :: bool

record event =
  EventFormat :: "string option"

datatype 'a attribute = Absent | Raising py_error | Present 'a

record session =
  laps :: "lap list attribute"
  lap_columns :: "string list"
  weather_data :: "weather_sample list option attribute"
  event :: "event option"

text \<open>
  The operations of FastF1 on lap tables are not part of the repository. They are
  parameters of the model, so every result holds whatever they compute: \<open>pick_drivers\<close>,
  \<open>pick_quicklaps\<close> and \<open>pick_track_status\<close> select laps, \<open>pick_fastest\<close> gives a lap or
  \<open>None\<close>, and \<open>get_telemetry\<close> gives the \<open>Speed\<close> samples of a lap or raises.
\<close>

record fastf1 =
  pick_drivers :: "lap list \<Rightarrow> string \<Rightarrow> lap list"
  pick_quicklaps :: "lap list \<Rightarrow> lap list"
  pick_track_status :: "lap list \<Rightarrow> string \<Rightarrow> lap list"
  pick_fastest :: "lap list \<Rightarrow> lap option"
  get_telemetry :: "lap \<Rightarrow> py_error + pyfloat list"

text \<open>
  Reading an attribute: an absent one raises AttributeError, a raising property raises
  its exception. \<open>hasattr\<close> is false for an absent attribute and lets every exception
  other than AttributeError through.
\<close>

fun getattr :: "string \<Rightarrow> 'a attribute \<Rightarrow> py_error + 'a" where
  "getattr name Absent = Inl (AttributeError name)"
| "getattr name (Raising e) = Inl e"
| "getattr name (Present v) = Inr v"

fun hasattr :: "'a attribute \<Rightarrow> py_error + bool" where
  "hasattr Absent = Inr False"
| "hasattr (Raising (AttributeError n)) = Inr False"
| "hasattr (Raising e) = Inl e"
| "hasattr (Present v) = Inr True"

section \<open>Practice pace (src/features/practice.py)\<close>

text \<open>\<open>Series.max()\<close> skips NaN; NaN when nothing is left.\<close>

definition series_max :: "pyfloat list \<Rightarrow> pyfloat" where
  "series_max vs = (let ps = present vs in if ps = [] then NaN else Fl (Max (set ps)))"

text \<open>\<open>Series.unique()\<close>: the distinct values in order of first appearance.\<close>

definition unique :: "'a list \<Rightarrow> 'a list" where
  "unique xs = rev (remdups (rev xs))"

text \<open>\<open>LapTime.dt.total_seconds()\<close>: NaN for NaT.\<close>

definition total_seconds :: "real option \<Rightarrow> pyfloat" where
  "total_seconds t = (case t of None \<Rightarrow> NaN | Some v \<Rightarrow> Fl v)"

text \<open>\<open>np.mean\<close>: NaN for an empty array or when an entry is NaN.\<close>

definition np_mean :: "pyfloat list \<Rightarrow> pyfloat" where
  "np_mean vs =
     (if vs = [] \<or> NaN \<in> set vs then NaN
      else Fl (sum_list (present vs) / real (length vs)))"

text \<open>
  \<open>np.polyfit(x, y, 1)\<close> fits a line to the points by least squares and returns its slope
  and intercept. With the sums over the points written out, the line is given by the
  normal equations. numpy raises LinAlgError when the data hold NaN.
\<close>

definition dot :: "real list \<Rightarrow> real list \<Rightarrow> real" where
  "dot xs ys = sum_list (map2 (*) xs ys)"

definition lstsq_slope :: "real list \<Rightarrow> real list \<Rightarrow> real" where
  "lstsq_slope xs ys =
     (let n = real (length xs)
      in (n * dot xs ys - sum_list xs * sum_list ys) / (n * dot xs xs - sum_list xs * sum_list xs))"

definition lstsq_intercept :: "real list \<Rightarrow> real list \<Rightarrow> real" where
  "lstsq_intercept xs ys =
     (sum_list ys - lstsq_slope xs ys * sum_list xs) / real (length xs)"

definition arange :: "nat \<Rightarrow> real list" where
  "arange n = map real [0..<n]"

definition np_polyfit :: "real list \<Rightarrow> pyfloat list \<Rightarrow> py_error + (real \<times> real)" where
  "np_polyfit x y =
     (if NaN \<in> set y then Inl LinAlgError
      else Inr (lstsq_slope x (present y), lstsq_intercept x (present y)))"

text \<open>
  The loop over the stints. A stint with at least \<open>min_laps\<close> laps adds its mean lap time to
  \<open>long_run_avgs\<close> and, when it has more than one lap, its slope to \<open>long_run_slopes\<close>.
\<close>

fun long_runs ::
  "int \<Rightarrow> lap list \<Rightarrow> int list \<Rightarrow> pyfloat list \<times> real list
     \<Rightarrow> py_error + (pyfloat list \<times> real list)" where
  "long_runs min_laps ls [] acc = Inr acc"
| "long_runs min_laps ls (stint_id # ids) (long_run_avgs, long_run_slopes) =
     (let stint_laps = filter (\<lambda>l. Stint l = stint_id) ls
      in if min_laps \<le> int (length stint_laps)
         then let times = map (total_seconds \<circ> LapTime) stint_laps;
                  avg_time = np_mean times;
                  x = arange (length times)
              in if 1 < length x
                 then (case np_polyfit x times of
                         Inl e \<Rightarrow> Inl e
                       | Inr (slope, intercept) \<Rightarrow>
                           long_runs min_laps ls ids
                             (long_run_avgs @ [avg_time], long_run_slopes @ [slope]))
                 else long_runs min_laps ls ids (long_run_avgs @ [avg_time], long_run_slopes)
         else long_runs min_laps ls ids (long_run_avgs, long_run_slopes))"

text \<open>Step 1 of the body: the fraction of weather samples with rain, 0 without data.\<close>

definition rain_probability :: "session \<Rightarrow> py_error + real" where
  "rain_probability s =
     (case hasattr (weather_data s) of
        Inl e \<Rightarrow> Inl e
      | Inr False \<Rightarrow> Inr 0
      | Inr True \<Rightarrow>
          (case getattr ''weather_data'' (weather_data s) of
             Inl e \<Rightarrow> Inl e
           | Inr None \<Rightarrow> Inr 0
           | Inr (Some w) \<Rightarrow>
               let rain_samples = length (filter Rainfall w);
                   total_samples = length w
               in if 0 < total_samples then Inr (real rain_samples / real total_samples)
                  else Inr 0))"

text \<open>
  Step 2: the top speed. The speed trap column, when the table has it; when that gives
  \<open>None\<close> or NaN, the telemetry of the fastest lap, and an exception of \<open>get_telemetry\<close>
  is swallowed by the inner \<open>try\<close>.
\<close>

definition top_speed_of :: "fastf1 \<Rightarrow> session \<Rightarrow> lap list \<Rightarrow> pyfloat option" where
  "top_speed_of lib s ls =
     (let top_speed = (if ''ST'' \<in> set (lap_columns s) then Some (series_max (map ST ls)) else None)
      in if top_speed = None \<or> top_speed = Some NaN
         then (case pick_fastest lib ls of
                 None \<Rightarrow> top_speed
               | Some fastest \<Rightarrow>
                   (case get_telemetry lib fastest of
                      Inl e \<Rightarrow> top_speed
                    | Inr speed \<Rightarrow> Some (series_max speed)))
         else top_speed)"

text \<open>The body of the \<open>try\<close> block; \<open>Inl\<close> is an exception raised inside it.\<close>

definition race_pace_body ::
  "fastf1 \<Rightarrow> session \<Rightarrow> string \<Rightarrow> int
     \<Rightarrow> py_error + (pyfloat option \<times> pyfloat option \<times> pyfloat option \<times> pyfloat option)" where
  "race_pace_body lib s driver min_laps =
     (case rain_probability s of
        Inl e \<Rightarrow> Inl e
      | Inr rain_prob \<Rightarrow>
          (case getattr ''laps'' (laps s) of
             Inl e \<Rightarrow> Inl e
           | Inr all_laps \<Rightarrow>
               let ls = pick_drivers lib all_laps driver
               in if ls = [] then Inr (None, None, None, Some (Fl rain_prob))
                  else let top_speed = top_speed_of lib s ls;
                           ls = pick_track_status lib (pick_quicklaps lib ls) ''1''
                       in if ls = [] then Inr (None, None, top_speed, Some (Fl rain_prob))
                          else (case long_runs min_laps ls (unique (map Stint ls)) ([], []) of
                                  Inl e \<Rightarrow> Inl e
                                | Inr (long_run_avgs, long_run_slopes) \<Rightarrow>
                                    if long_run_avgs \<noteq> []
                                    then Inr (Some (np_mean long_run_avgs),
                                              Some (if long_run_slopes \<noteq> []
                                                    then np_mean (map Fl long_run_slopes)
                                                    else Fl 0),
                                              top_speed, Some (Fl rain_prob))
                                    else Inr (None, None, top_speed, Some (Fl rain_prob)))))"

text \<open>
  \<open>calculate_race_pace\<close>: four \<open>None\<close> for a session that is \<open>None\<close>, and the handler
  \<open>except Exception\<close> returns four \<open>None\<close> as well.
\<close>

definition calculate_race_pace ::
  "fastf1 \<Rightarrow> session option \<Rightarrow> string \<Rightarrow> int
     \<Rightarrow> pyfloat option \<times> pyfloat option \<times> pyfloat option \<times> pyfloat option" where
  "calculate_race_pace lib session driver min_laps =
     (case session of
        None \<Rightarrow> (None, None, None, None)
      | Some s \<Rightarrow>
          (case race_pace_body lib s driver min_laps of
             Inl e \<Rightarrow> (None, None, None, None)
           | Inr result \<Rightarrow> result))"

section \<open>Teammate delta (src/features/driver.py)\<close>

text \<open>
  The teammate is a driver code or \<open>None\<close>; \<open>not teammate\<close> holds for \<open>None\<close> and for
  the empty string. The lap times are seconds, so the difference of two lap times is the
  value of \<open>total_seconds()\<close>. \<open>Inl\<close> is an exception that leaves the function.
\<close>

definition calculate_qualifying_delta_to_teammate ::
  "fastf1 \<Rightarrow> session \<Rightarrow> string \<Rightarrow> string option \<Rightarrow> py_error + real" where
  "calculate_qualifying_delta_to_teammate lib s driver teammate =
     (case teammate of
        None \<Rightarrow> Inr 0
      | Some mate \<Rightarrow>
          if mate = [] then Inr 0
          else (case getattr ''laps'' (laps s) of
                  Inl e \<Rightarrow> Inl e
                | Inr all_laps \<Rightarrow>
                    let d_laps = pick_drivers lib all_laps driver;
                        t_laps = pick_drivers lib all_laps mate
                    in if d_laps = [] \<or> t_laps = [] then Inr 0
                       else (case (pick_fastest lib d_laps, pick_fastest lib t_laps) of
                               (Some d_fastest, Some t_fastest) \<Rightarrow>
                                 (case (LapTime d_fastest, LapTime t_fastest) of
                                    (Some d_time, Some t_time) \<Rightarrow> Inr (d_time - t_time)
                                  | _ \<Rightarrow> Inr 0)
                             | _ \<Rightarrow> Inr 0)))"

section \<open>Track features (src/features/track.py)\<close>





section \<open>Sprint model (src/models/sprint.py)\<close>













section \<open>Predictor (src/pipeline/predict.py)\<close>



section \<open>Predictions and the race ranking (src/pipeline/predict.py)\<close>

text \<open>
  \<open>predict_driver\<close> returns a dictionary; \<open>predict_race\<close> adds the keys \<open>Driver\<close> and,
  after sorting, \<open>Predicted_Position\<close>, so these two may be absent. The sprint class is a
  class name of the sprint model or the string "N/A". A race score is a number.
\<close>

record prediction =
  Qualifying_Position :: pyfloat
  Sprint_Class :: string
  Race_Score :: real
  Grid_Position :: pyfloat
  Race_Pace :: pyfloat
  Tire_Degradation :: pyfloat
  Top_Speed :: pyfloat
  Rain_Probability :: pyfloat
  Driver_Key :: "string option"
  Predicted_Position :: "int option"

text \<open>
  \<open>list.sort(key=..., reverse=True)\<close>: CPython reverses the list, sorts it with its
  stable sort in ascending order of the key and reverses the result, so that equal keys
  keep their original order.
\<close>

definition sort_reverse :: "('a \<Rightarrow> real) \<Rightarrow> 'a list \<Rightarrow> 'a list" where
  "sort_reverse key xs = rev (sort_key key (rev xs))"

text \<open>The loop \<open>for i, p in enumerate(predictions): p['Predicted_Position'] = i + 1\<close>.\<close>

fun assign_ranks :: "nat \<Rightarrow> prediction list \<Rightarrow> prediction list" where
  "assign_ranks i [] = []"
| "assign_ranks i (p # ps) =
     p\<lparr>Predicted_Position := Some (int i + 1)\<rparr> # assign_ranks (i + 1) ps"

text \<open>Lines 344 to 353 of \<open>predict_race\<close>: sort by race score, then assign the ranks.\<close>

definition predict_race_ranking :: "prediction list \<Rightarrow> prediction list" where
  "predict_race_ranking predictions =
     assign_ranks 0 (sort_reverse Race_Score predictions)"

text \<open>A prediction without its rank, to compare predictions before and after ranking.\<close>

definition unranked :: "prediction \<Rightarrow> prediction" where
  "unranked p = p\<lparr>Predicted_Position := None\<rparr>"

section \<open>Predicting one driver (src/pipeline/predict.py)\<close>





section \<open>The sprint claim in the words of the specification\<close>



section \<open>The fit of a line in the words of the specification\<close>



section \<open>Examples\<close>

definition dnf_history :: "result_row list" where
  "dnf_history =
     [\<lparr>RoundNumber = 1, TeamName = ''Ferrari'', Position = Fl 3,
        Driver = ''LEC'', Status = ''Finished''\<rparr>,
      \<lparr>RoundNumber = 2, TeamName = ''Ferrari'', Position = NaN,
        Driver = ''LEC'', Status = ''Engine''\<rparr>,
      \<lparr>RoundNumber = 3, TeamName = ''Ferrari'', Position = Fl 12,
        Driver = ''LEC'', Status = ''+1 Lap''\<rparr>,
      \<lparr>RoundNumber = 4, TeamName = ''Ferrari'', Position = NaN,
        Driver = ''LEC'', Status = ''Collision''\<rparr>]"


definition standings_example :: "standing_row list" where
  "standings_example =
     [\<lparr>RoundNumber = 1, TeamName = ''Ferrari'', Position = Fl 2\<rparr>,
      \<lparr>RoundNumber = 1, TeamName = ''Mercedes'', Position = Fl 1\<rparr>,
      \<lparr>RoundNumber = 2, TeamName = ''Ferrari'', Position = Fl 1\<rparr>]"

text \<open>
  Twenty drivers holding the scores 19, 18, ..., 0 once each, in the order of the
  fallback driver list of \<open>predict_race\<close>.
\<close>

definition driver_prediction :: "string \<Rightarrow> real \<Rightarrow> prediction" where
  "driver_prediction d s =
     \<lparr>Qualifying_Position = Fl 10, Sprint_Class = ''N/A'', Race_Score = s,
      Grid_Position = Fl 10, Race_Pace = NaN, Tire_Degradation = NaN, Top_Speed = NaN,
      Rain_Probability = Fl 0, Driver_Key = Some d, Predicted_Position = None\<rparr>"

definition field20 :: "prediction list" where
  "field20 =
     [driver_prediction ''VER'' 7, driver_prediction ''PER'' 12,
      driver_prediction ''LEC'' 0, driver_prediction ''SAI'' 18,
      driver_prediction ''NOR'' 3, driver_prediction ''PIA'' 15,
      driver_prediction ''HAM'' 19, driver_prediction ''RUS'' 9,
      driver_prediction ''ALO'' 1, driver_prediction ''STR'' 14,
      driver_prediction ''TSU'' 5, driver_prediction ''RIC'' 11,
      driver_prediction ''ALB'' 17, driver_prediction ''SAR'' 2,
      driver_prediction ''ZHO'' 8, driver_prediction ''BOT'' 16,
      driver_prediction ''MAG'' 4, driver_prediction ''HUL'' 13,
      driver_prediction ''GAS'' 6, driver_prediction ''OCO'' 10]"

text \<open>
  A library instance for the examples: drivers are picked by abbreviation or number,
  quick laps are the laps with a lap time, the track status is compared for equality, the
  fastest lap is the first lap with the least lap time, and no telemetry is loaded.
\<close>

fun fastest_lap :: "lap option \<Rightarrow> lap list \<Rightarrow> lap option" where
  "fastest_lap best [] = best"
| "fastest_lap best (l # ls) =
     (case (LapTime l, best) of
        (None, _) \<Rightarrow> fastest_lap best ls
      | (Some t, None) \<Rightarrow> fastest_lap (Some l) ls
      | (Some t, Some b) \<Rightarrow>
          (case LapTime b of
             None \<Rightarrow> fastest_lap (Some l) ls
           | Some bt \<Rightarrow> if t < bt then fastest_lap (Some l) ls else fastest_lap best ls))"

definition example_lib :: fastf1 where
  "example_lib =
     \<lparr>pick_drivers = (\<lambda>ls d. filter (\<lambda>l. LapDriver l = d \<or> DriverNumber l = d) ls),
      pick_quicklaps = filter (\<lambda>l. \<not> Option.is_none (LapTime l)),
      pick_track_status = (\<lambda>ls st. filter (\<lambda>l. TrackStatus l = st) ls),
      pick_fastest = fastest_lap None,
      get_telemetry = (\<lambda>l. Inl DataNotLoadedError)\<rparr>"

definition example_weather :: "weather_sample list" where
  "example_weather =
     [\<lparr>TrackTemp = Fl 30, Rainfall = True\<rparr>, \<lparr>TrackTemp = Fl 32, Rainfall = False\<rparr>]"

text \<open>A session whose weather was loaded and whose laps were not.\<close>

definition session_without_laps :: session where
  "session_without_laps =
     \<lparr>laps = Raising DataNotLoadedError, lap_columns = [],
      weather_data = Present (Some example_weather),
      event = Some \<lparr>EventFormat = Some ''conventional''\<rparr>\<rparr>"

definition quali_lap :: "string \<Rightarrow> string \<Rightarrow> real option \<Rightarrow> lap" where
  "quali_lap d n t =
     \<lparr>LapDriver = d, DriverNumber = n, LapTime = t, Stint = 1, TrackStatus = ''1'',
      ST = NaN\<rparr>"

text \<open>A qualifying session with laps of two team mates and of a driver without a time.\<close>

definition quali_session :: session where
  "quali_session =
     \<lparr>laps = Present
        [quali_lap ''VER'' ''1'' (Some 91), quali_lap ''PER'' ''11'' (Some 90.5),
         quali_lap ''VER'' ''1'' (Some 89.25), quali_lap ''PER'' ''11'' None,
         quali_lap ''SAR'' ''2'' None],
      lap_columns = [], weather_data = Present None,
      event = Some \<lparr>EventFormat = Some ''sprint''\<rparr>\<rparr>"













section \<open>Tables and strings: lemmas\<close>









section \<open>Driver features: proofs\<close>

lemma count_dnfs_filter:
  "count_dnfs k rows =
     k + length (filter (\<lambda>r. Status r \<noteq> ''Finished'' \<and> CHR ''+'' \<notin> set (Status r)) rows)"
  by (induction rows arbitrary: k) (simp_all add: Let_def)

text \<open>
  Claim C3. With no entry before the current round the DNF rate is exactly 0; otherwise
  it is k / n, where n counts the entries with a round before the current one and k
  counts those of them whose status is not "Finished" and has no "+" in it.
\<close>

theorem dnf_rate_fraction:
  "((\<forall>r \<in> set h. \<not> RoundNumber r < cr) \<longrightarrow> calculate_driver_dnf_rate h cr = 0) \<and>
   ((\<exists>r \<in> set h. RoundNumber r < cr) \<longrightarrow>
      calculate_driver_dnf_rate h cr =
        real (length (filter (\<lambda>r. RoundNumber r < cr \<and> Status r \<noteq> ''Finished''
                                  \<and> CHR ''+'' \<notin> set (Status r)) h))
        / real (length (filter (\<lambda>r. RoundNumber r < cr) h)))"
proof (intro conjI impI)
  assume "\<forall>r \<in> set h. \<not> RoundNumber r < cr"
  then have "filter (\<lambda>r. RoundNumber r < cr) h = []"
    by (simp add: filter_empty_conv)
  then show "calculate_driver_dnf_rate h cr = 0"
    by (simp add: calculate_driver_dnf_rate_def)
next
  assume "\<exists>r \<in> set h. RoundNumber r < cr"
  then have ne: "filter (\<lambda>r. RoundNumber r < cr) h \<noteq> []"
    by (simp add: filter_empty_conv)
  have "filter (\<lambda>r. Status r \<noteq> ''Finished'' \<and> CHR ''+'' \<notin> set (Status r))
          (filter (\<lambda>r. RoundNumber r < cr) h) =
        filter (\<lambda>r. RoundNumber r < cr \<and> Status r \<noteq> ''Finished''
                      \<and> CHR ''+'' \<notin> set (Status r)) h"
    by (simp add: conj_commute conj_left_commute)
  with ne show "calculate_driver_dnf_rate h cr =
        real (length (filter (\<lambda>r. RoundNumber r < cr \<and> Status r \<noteq> ''Finished''
                                  \<and> CHR ''+'' \<notin> set (Status r)) h))
        / real (length (filter (\<lambda>r. RoundNumber r < cr) h))"
    by (simp add: calculate_driver_dnf_rate_def Let_def count_dnfs_filter)
qed

theorem dnf_rate_fraction_witness:
  "calculate_driver_dnf_rate dnf_history 1 = 0 \<and>
   calculate_driver_dnf_rate dnf_history 4 = 1 / 3"
  using dnf_rate_fraction [of dnf_history 1] dnf_rate_fraction [of dnf_history 4]
  by (simp add: dnf_history_def)




section \<open>Constructor features: proofs\<close>





text \<open>
  Claim C5. The function is meant to return NaN when the standings have no row for the
  team and the previous round, and it evaluates \<open>np.nan\<close> there; the module never
  imports numpy, so the call raises NameError instead. Here the standings hold rows of
  round 1 for Ferrari and Mercedes and of round 2 for Ferrari only, and Mercedes is
  looked up at round 3.
\<close>

theorem constructor_standing_missing_row_raises:
  "calculate_constructor_standing (Some standings_example) ''Mercedes'' 3
     = Inl (NameError ''np'')"
  by (simp add: calculate_constructor_standing_def standings_example_def np_nan_def
      constructor_globals_def)

text \<open>
  Claim C10. When the standings table is \<open>None\<close> or empty, the function reaches the
  unbound name \<open>np\<close> and raises NameError, whatever the team and the round.
\<close>

theorem constructor_standing_no_data_raises:
  "calculate_constructor_standing None team_name current_round = Inl (NameError ''np'') \<and>
   calculate_constructor_standing (Some []) team_name current_round = Inl (NameError ''np'')"
  by (simp add: calculate_constructor_standing_def np_nan_def constructor_globals_def)

section \<open>Practice pace: the failure policy\<close>

text \<open>
  Claim C4, as the code has it. When an exception is raised inside the \<open>try\<close> block,
  \<open>calculate_race_pace\<close> returns four \<open>None\<close>; the function is total, so no exception
  reaches the caller. The rain probability is \<open>None\<close> too, whether or not it had been
  computed.
\<close>

theorem race_pace_exception_degrades:
  "race_pace_body lib s driver min_laps = Inl e \<Longrightarrow>
   calculate_race_pace lib (Some s) driver min_laps = (None, None, None, None)"
  by (simp add: calculate_race_pace_def)

theorem race_pace_exception_degrades_witness:
  "race_pace_body example_lib session_without_laps ''VER'' 5 = Inl DataNotLoadedError \<and>
   calculate_race_pace example_lib (Some session_without_laps) ''VER'' 5
     = (None, None, None, None)"
proof -
  have b: "race_pace_body example_lib session_without_laps ''VER'' 5 = Inl DataNotLoadedError"
    by (simp add: race_pace_body_def rain_probability_def session_without_laps_def
        example_weather_def)
  from b race_pace_exception_degrades [OF b] show ?thesis by simp
qed

text \<open>
  Claim C4 as stated fails: the weather of this session gives a rain probability of
  one half, reading its laps raises, and the fourth component of the result is \<open>None\<close>,
  neither one half nor 0.
\<close>

theorem race_pace_rain_component_counterexample:
  "rain_probability session_without_laps = Inr (1 / 2) \<and>
   snd (snd (snd (calculate_race_pace example_lib (Some session_without_laps) ''VER'' 5)))
     = None"
  by (simp add: calculate_race_pace_def race_pace_body_def rain_probability_def
      session_without_laps_def example_weather_def)

section \<open>Teammate delta: proofs\<close>

text \<open>
  Claim C8 as stated fails: the function has no handler, and with a teammate given it
  reads \<open>session.laps\<close>, which raises for a session whose laps were not loaded.
\<close>

theorem quali_delta_raises_counterexample:
  "calculate_qualifying_delta_to_teammate example_lib session_without_laps ''VER'' (Some ''PER'')
     = Inl DataNotLoadedError"
  by (simp add: calculate_qualifying_delta_to_teammate_def session_without_laps_def)

text \<open>
  Claim C8, as the code has it. Without a teammate the result is 0. For a session whose
  lap table is loaded the function returns a number: 0 when the driver or the teammate
  has no lap, when one of them has no fastest lap, or when a fastest lap has no lap time,
  and otherwise the driver's fastest lap time minus the teammate's, in seconds.
\<close>

theorem quali_delta_loaded:
  "((teammate = None \<or> teammate = Some []) \<longrightarrow>
      calculate_qualifying_delta_to_teammate lib s driver teammate = Inr 0) \<and>
   (laps s = Present all_laps \<longrightarrow>
      (\<exists>v. calculate_qualifying_delta_to_teammate lib s driver teammate = Inr v) \<and>
      (\<forall>mate. teammate = Some mate \<and>
          (pick_drivers lib all_laps driver = [] \<or> pick_drivers lib all_laps mate = []) \<longrightarrow>
          calculate_qualifying_delta_to_teammate lib s driver teammate = Inr 0) \<and>
      (\<forall>mate. teammate = Some mate \<and>
          (pick_fastest lib (pick_drivers lib all_laps driver) = None \<or>
           pick_fastest lib (pick_drivers lib all_laps mate) = None) \<longrightarrow>
          calculate_qualifying_delta_to_teammate lib s driver teammate = Inr 0) \<and>
      (\<forall>mate d_fastest t_fastest. teammate = Some mate \<and>
          pick_fastest lib (pick_drivers lib all_laps driver) = Some d_fastest \<and>
          pick_fastest lib (pick_drivers lib all_laps mate) = Some t_fastest \<and>
          (LapTime d_fastest = None \<or> LapTime t_fastest = None) \<longrightarrow>
          calculate_qualifying_delta_to_teammate lib s driver teammate = Inr 0) \<and>
      (\<forall>mate d_fastest t_fastest d_time t_time. teammate = Some mate \<and> mate \<noteq> [] \<and>
          pick_drivers lib all_laps driver \<noteq> [] \<and> pick_drivers lib all_laps mate \<noteq> [] \<and>
          pick_fastest lib (pick_drivers lib all_laps driver) = Some d_fastest \<and>
          pick_fastest lib (pick_drivers lib all_laps mate) = Some t_fastest \<and>
          LapTime d_fastest = Some d_time \<and> LapTime t_fastest = Some t_time \<longrightarrow>
          calculate_qualifying_delta_to_teammate lib s driver teammate = Inr (d_time - t_time)))"
  by (auto simp: calculate_qualifying_delta_to_teammate_def Let_def
      split: option.splits sum.splits prod.splits)

theorem quali_delta_loaded_witness:
  "calculate_qualifying_delta_to_teammate example_lib quali_session ''VER'' None = Inr 0 \<and>
   calculate_qualifying_delta_to_teammate example_lib quali_session ''VER'' (Some ''ZHO'') = Inr 0 \<and>
   calculate_qualifying_delta_to_teammate example_lib quali_session ''VER'' (Some ''SAR'') = Inr 0 \<and>
   calculate_qualifying_delta_to_teammate example_lib quali_session ''1'' (Some ''11'')
     = Inr (- 5 / 4)"
  using quali_delta_loaded [where teammate = None and lib = example_lib and s = quali_session
      and driver = "''VER''"]
    quali_delta_loaded [where teammate = "Some ''ZHO''" and lib = example_lib
      and s = quali_session and driver = "''VER''"]
    quali_delta_loaded [where teammate = "Some ''SAR''" and lib = example_lib
      and s = quali_session and driver = "''VER''"]
    quali_delta_loaded [where teammate = "Some ''11''" and lib = example_lib
      and s = quali_session and driver = "''1''"]
  by (simp add: calculate_qualifying_delta_to_teammate_def quali_session_def example_lib_def
      quali_lap_def)

section \<open>Least squares: lemmas\<close>

lemma dot_Nil [simp]: "dot [] ys = 0" "dot xs [] = 0"
  by (simp_all add: dot_def)

lemma dot_Cons [simp]: "dot (x # xs) (y # ys) = x * y + dot xs ys"
  by (simp add: dot_def)








lemma length_arange [simp]: "length (arange n) = n"
  by (simp add: arange_def)
















section \<open>Practice pace: stints\<close>













section \<open>Race ranking: proofs\<close>

lemma assign_ranks_length: "length (assign_ranks i ps) = length ps"
  by (induction ps arbitrary: i) simp_all

lemma assign_ranks_scores: "map Race_Score (assign_ranks i ps) = map Race_Score ps"
  by (induction ps arbitrary: i) simp_all

lemma assign_ranks_unranked: "map unranked (assign_ranks i ps) = map unranked ps"
  by (induction ps arbitrary: i) (simp_all add: unranked_def)

lemma assign_ranks_positions:
  "map Predicted_Position (assign_ranks i ps) = map (\<lambda>j. Some (int j + 1)) [i..<i + length ps]"
  by (induction ps arbitrary: i) (simp_all add: upt_rec)

lemma assign_ranks_filter:
  "map unranked (filter (\<lambda>p. Race_Score p = k) (assign_ranks i ps)) =
   map unranked (filter (\<lambda>p. Race_Score p = k) ps)"
  by (induction ps arbitrary: i) (simp_all add: unranked_def)

lemma assign_ranks_idem: "assign_ranks i (assign_ranks j ps) = assign_ranks i ps"
  by (induction ps arbitrary: i j) simp_all

lemma sort_reverse_stable:
  "filter (\<lambda>p. key p = k) (sort_reverse key xs) = filter (\<lambda>p. key p = k) xs"
  by (simp add: sort_reverse_def rev_filter [symmetric] sort_key_stable)

lemma sort_reverse_sorted: "sorted (rev (map key (sort_reverse key xs)))"
  by (simp add: sort_reverse_def rev_map [symmetric])

lemma sort_reverse_mset: "mset (sort_reverse key xs) = mset xs"
  by (simp add: sort_reverse_def)

lemma sort_reverse_id: "sorted (rev (map key xs)) \<Longrightarrow> sort_reverse key xs = xs"
  by (simp add: sort_reverse_def rev_map [symmetric] sort_key_id_if_sorted)

lemma sort_reverse_scores: "map key (sort_reverse key xs) = rev (sort (map key xs))"
proof -
  have "sort (map key xs) = sort (map key (rev (sort_reverse key xs)))"
    by (rule properties_for_sort) (simp_all add: sort_reverse_def)
  also have "\<dots> = map key (rev (sort_reverse key xs))"
    using sort_reverse_sorted [of key xs] by (simp add: rev_map sorted_sort_id)
  finally show ?thesis by (simp add: rev_map)
qed

lemma ranking_scores:
  "map Race_Score (predict_race_ranking ps) = rev (sort (map Race_Score ps))"
  by (simp add: predict_race_ranking_def assign_ranks_scores sort_reverse_scores)

lemma ranking_positions:
  "map Predicted_Position (predict_race_ranking ps) =
     map (\<lambda>j. Some (int j + 1)) [0..<length ps]"
  using assign_ranks_positions [of 0 "sort_reverse Race_Score ps"]
  by (simp add: predict_race_ranking_def sort_reverse_def)

lemma ranking_length: "length (predict_race_ranking ps) = length ps"
  using arg_cong [OF ranking_positions [of ps], of length] by simp

lemma ranking_idem: "predict_race_ranking (predict_race_ranking ps) = predict_race_ranking ps"
proof -
  let ?S = "sort_reverse Race_Score ps"
  have "sorted (rev (map Race_Score (assign_ranks 0 ?S)))"
    by (simp add: assign_ranks_scores sort_reverse_sorted)
  then have "sort_reverse Race_Score (assign_ranks 0 ?S) = assign_ranks 0 ?S"
    by (rule sort_reverse_id)
  then show ?thesis
    by (simp add: predict_race_ranking_def assign_ranks_idem)
qed

lemma ranking_scenario:
  assumes "sort (map Race_Score ps) = map real [0..<20]"
      and "p \<in> set (predict_race_ranking ps)"
  shows "(Race_Score p = 19 \<longrightarrow> Predicted_Position p = Some 1) \<and>
         (Race_Score p = 0 \<longrightarrow> Predicted_Position p = Some 20)"
proof -
  let ?R = "predict_race_ranking ps"
  have len: "length ps = 20"
    using arg_cong [OF assms(1), of length] by simp
  then have lenR: "length ?R = 20" by (simp add: ranking_length)
  from assms(2) obtain i where i: "i < 20" "?R ! i = p"
    using lenR by (metis in_set_conv_nth)
  have "Race_Score p = map Race_Score ?R ! i" using i lenR by simp
  also have "\<dots> = rev (map real [0..<20]) ! i" using assms(1) by (simp add: ranking_scores)
  also have "\<dots> = real (19 - i)" using i by (simp add: rev_nth)
  finally have score: "Race_Score p = real (19 - i)" .
  have "Predicted_Position p = map Predicted_Position ?R ! i" using i lenR by simp
  also have "\<dots> = Some (int i + 1)" using i len by (simp add: ranking_positions)
  finally have pos: "Predicted_Position p = Some (int i + 1)" .
  from score pos i show ?thesis by auto
qed

text \<open>
  Claim C1. The final ranking of \<open>predict_race\<close> lists the predictions by race score in
  descending order, keeps every prediction, keeps predictions with equal scores in their
  input order and gives the prediction at index i the position i + 1. Ranking a ranked
  list again changes nothing. When the scores are 0, 1, ..., 19 once each, in any order,
  there is a prediction with score 19 and one with score 0, every prediction with score
  19 has position 1 and every prediction with score 0 has position 20.
\<close>

theorem race_ranking_sorted_stable:
  "sorted_wrt (\<lambda>a b. Race_Score b \<le> Race_Score a) (predict_race_ranking ps) \<and>
   mset (map unranked (predict_race_ranking ps)) = mset (map unranked ps) \<and>
   (\<forall>k. map unranked (filter (\<lambda>p. Race_Score p = k) (predict_race_ranking ps)) =
        map unranked (filter (\<lambda>p. Race_Score p = k) ps)) \<and>
   map Predicted_Position (predict_race_ranking ps) =
     map (\<lambda>i. Some (int i + 1)) [0..<length ps] \<and>
   predict_race_ranking (predict_race_ranking ps) = predict_race_ranking ps \<and>
   (sort (map Race_Score ps) = map real [0..<20] \<longrightarrow>
      (\<exists>p \<in> set (predict_race_ranking ps). Race_Score p = 19) \<and>
      (\<exists>p \<in> set (predict_race_ranking ps). Race_Score p = 0) \<and>
      (\<forall>p \<in> set (predict_race_ranking ps).
          (Race_Score p = 19 \<longrightarrow> Predicted_Position p = Some 1) \<and>
          (Race_Score p = 0 \<longrightarrow> Predicted_Position p = Some 20)))"
proof (intro conjI allI impI ballI)
  have "sorted (rev (map Race_Score (predict_race_ranking ps)))"
    by (simp add: ranking_scores)
  then show "sorted_wrt (\<lambda>a b. Race_Score b \<le> Race_Score a) (predict_race_ranking ps)"
    by (simp add: rev_map [symmetric] sorted_wrt_rev sorted_wrt_map)
next
  have "map unranked (predict_race_ranking ps) = map unranked (sort_reverse Race_Score ps)"
    by (simp add: predict_race_ranking_def assign_ranks_unranked)
  then show "mset (map unranked (predict_race_ranking ps)) = mset (map unranked ps)"
    by (simp add: sort_reverse_mset)
next
  fix k
  show "map unranked (filter (\<lambda>p. Race_Score p = k) (predict_race_ranking ps)) =
        map unranked (filter (\<lambda>p. Race_Score p = k) ps)"
    by (simp add: predict_race_ranking_def assign_ranks_filter sort_reverse_stable)
next
  show "map Predicted_Position (predict_race_ranking ps) =
     map (\<lambda>i. Some (int i + 1)) [0..<length ps]"
    by (rule ranking_positions)
next
  show "predict_race_ranking (predict_race_ranking ps) = predict_race_ranking ps"
    by (rule ranking_idem)
next
  assume a: "sort (map Race_Score ps) = map real [0..<20]"
  have "set (map Race_Score (predict_race_ranking ps)) = set (map real [0..<20])"
    using a by (simp only: ranking_scores set_rev)
  then have s: "Race_Score ` set (predict_race_ranking ps) = real ` {0..<20}"
    by simp
  have "real 19 \<in> Race_Score ` set (predict_race_ranking ps)"
    unfolding s by (rule imageI) simp
  then obtain p where "p \<in> set (predict_race_ranking ps)" "Race_Score p = real 19"
    by (auto simp only: image_iff)
  then show "\<exists>p \<in> set (predict_race_ranking ps). Race_Score p = 19"
    by (intro bexI [of _ p]) simp_all
  have "real 0 \<in> Race_Score ` set (predict_race_ranking ps)"
    unfolding s by (rule imageI) simp
  then obtain q where "q \<in> set (predict_race_ranking ps)" "Race_Score q = real 0"
    by (auto simp only: image_iff)
  then show "\<exists>p \<in> set (predict_race_ranking ps). Race_Score p = 0"
    by (intro bexI [of _ q]) simp_all
next
  fix p
  assume "sort (map Race_Score ps) = map real [0..<20]"
    and "p \<in> set (predict_race_ranking ps)" and "Race_Score p = 19"
  then show "Predicted_Position p = Some 1"
    using ranking_scenario [of ps p] by blast
next
  fix p
  assume "sort (map Race_Score ps) = map real [0..<20]"
    and "p \<in> set (predict_race_ranking ps)" and "Race_Score p = 0"
  then show "Predicted_Position p = Some 20"
    using ranking_scenario [of ps p] by blast
qed

theorem race_ranking_sorted_stable_witness:
  "map Driver_Key (take 2 (predict_race_ranking field20)) = [Some ''HAM'', Some ''SAI''] \<and>
   map Predicted_Position (take 2 (predict_race_ranking field20)) = [Some 1, Some 2] \<and>
   Driver_Key (last (predict_race_ranking field20)) = Some ''LEC'' \<and>
   Predicted_Position (last (predict_race_ranking field20)) = Some 20"
  using race_ranking_sorted_stable [of field20]
  by (simp add: field20_def driver_prediction_def predict_race_ranking_def sort_reverse_def upt_rec)

section \<open>Sprint classification: proofs\<close>













end
